theory Spec2Isabelle
  imports Main
begin

section \<open>The otp\_codes table\<close>

text \<open>
  One row of the table \<^verbatim>\<open>otp_codes\<close> of the migration: \<^verbatim>\<open>id BIGSERIAL\<close>,
  \<^verbatim>\<open>email\<close>, \<^verbatim>\<open>code_hash\<close>, \<^verbatim>\<open>purpose\<close> (text), \<^verbatim>\<open>expires_at\<close> and
  \<^verbatim>\<open>created_at\<close> (timestamptz). An instant is an integer number of milliseconds, the
  precision of \<^verbatim>\<open>Date.toISOString()\<close>; the database compares instants, not their text.
\<close>

record otp_code =
  otp_id :: nat
  email :: string
  code_hash :: string
  purpose :: string
  expires_at :: int
  created_at :: int

text \<open>The table: its rows in insertion order, and the next value of the id sequence.\<close>

record otp_codes =
  rows :: "otp_code list"
  next_id :: nat

text \<open>\<^verbatim>\<open>.eq("email", email).eq("purpose", purpose)\<close>, the filter every query starts with.\<close>

definition for_pair :: "string \<Rightarrow> string \<Rightarrow> otp_code \<Rightarrow> bool" where
  "for_pair e p r = (email r = e \<and> purpose r = p)"

text \<open>
  The cleanup of the issuing handler:
  \<^verbatim>\<open>.delete().eq("email", email).eq("purpose", purpose).lt("expires_at", now)\<close>.
\<close>

definition expired_lt :: "string \<Rightarrow> string \<Rightarrow> int \<Rightarrow> otp_code \<Rightarrow> bool" where
  "expired_lt e p t r = (for_pair e p r \<and> expires_at r < t)"

definition deleteExpired :: "otp_codes \<Rightarrow> string \<Rightarrow> string \<Rightarrow> int \<Rightarrow> otp_codes" where
  "deleteExpired s e p t = s\<lparr>rows := filter (Not \<circ> expired_lt e p t) (rows s)\<rparr>"

text \<open>
  The count query of the issuing handler:
  \<^verbatim>\<open>.select("id").eq("email", email).eq("purpose", purpose).gte("expires_at", now)\<close>;
  the handler takes the length of the rows returned.
\<close>

definition counted_gte :: "string \<Rightarrow> string \<Rightarrow> int \<Rightarrow> otp_code \<Rightarrow> bool" where
  "counted_gte e p t r = (for_pair e p r \<and> t \<le> expires_at r)"

definition activeOtps :: "otp_codes \<Rightarrow> string \<Rightarrow> string \<Rightarrow> int \<Rightarrow> nat list" where
  "activeOtps s e p t = map otp_id (filter (counted_gte e p t) (rows s))"

text \<open>
  \<^verbatim>\<open>.insert({ email, code_hash, purpose, expires_at, created_at })\<close>: the row goes to
  the end of the table and takes the next value of the sequence.
\<close>

definition insert_row :: "otp_codes \<Rightarrow> string \<Rightarrow> string \<Rightarrow> string \<Rightarrow> int \<Rightarrow> int \<Rightarrow> otp_codes" where
  "insert_row s e h p x c =
     \<lparr>rows = rows s @ [\<lparr>otp_id = next_id s, email = e, code_hash = h, purpose = p,
                        expires_at = x, created_at = c\<rparr>],
      next_id = Suc (next_id s)\<rparr>"

text \<open>
  The lookup of the verifying handler:
  \<^verbatim>\<open>.eq("email", email).eq("purpose", purpose).gt("expires_at", now)
   .order("expires_at", { ascending: false }).limit(1).single()\<close>.
  Among rows that tie on \<^verbatim>\<open>expires_at\<close> the database leaves the order open; the model
  takes the one inserted first.
\<close>

definition matched_gt :: "string \<Rightarrow> string \<Rightarrow> int \<Rightarrow> otp_code \<Rightarrow> bool" where
  "matched_gt e p t r = (for_pair e p r \<and> t < expires_at r)"

text \<open>
  The rows that pass the filter of the lookup: the records of the pair whose
  \<^verbatim>\<open>expires_at\<close> is strictly later than \<open>t\<close>. These are the active records of the
  specification (section 3).
\<close>

definition activeRecords :: "otp_codes \<Rightarrow> string \<Rightarrow> string \<Rightarrow> int \<Rightarrow> otp_code list" where
  "activeRecords s e p t = filter (matched_gt e p t) (rows s)"

text \<open>\<^verbatim>\<open>.order("expires_at", { ascending: false }).limit(1)\<close> on a list that is not empty.\<close>

fun latest :: "otp_code \<Rightarrow> otp_code list \<Rightarrow> otp_code" where
  "latest r [] = r"
| "latest r (x # xs) = latest (if expires_at r < expires_at x then x else r) xs"

definition findLatestActive :: "otp_codes \<Rightarrow> string \<Rightarrow> string \<Rightarrow> int \<Rightarrow> otp_code option" where
  "findLatestActive s e p t =
     (case activeRecords s e p t of
        [] \<Rightarrow> None
      | r # rs \<Rightarrow> Some (latest r rs))"

text \<open>
  \<^verbatim>\<open>.delete().eq("email", email).eq("purpose", purpose)\<close>, when the statement runs.
\<close>

definition deleteAll :: "otp_codes \<Rightarrow> string \<Rightarrow> string \<Rightarrow> otp_codes" where
  "deleteAll s e p = s\<lparr>rows := filter (Not \<circ> for_pair e p) (rows s)\<rparr>"

section \<open>Requests, responses and the world outside\<close>

text \<open>
  The request: its HTTP method and the fields the handlers destructure from the JSON body.
  A field that is absent is the empty string: both are falsy for the handlers' \<^verbatim>\<open>!email\<close>.
  The fields are strings, and the request is one whose body \<^verbatim>\<open>req.json()\<close> has parsed.
\<close>

record request =
  http_method :: string
  body_email :: string
  body_purpose :: string
  body_code :: string
  body_password :: string

type_synonym session = string

datatype body =
    TextBody string
  | ErrorBody string
  | MessageBody string
  | SessionBody session

datatype response = Response nat body

text \<open>The calls a handler makes to the table, the auth service and the mail service.\<close>

datatype call =
    StoreDeleteExpired
  | StoreCount
  | StoreInsert
  | StoreSelect
  | StoreDeleteAll
  | AuthListUsers
  | AuthCreateUser
  | AuthUpdateUserById
  | AuthSignIn
  | SendMail

text \<open>
  What the collaborators answer during one request. \<open>now\<close> is \<^verbatim>\<open>new Date()\<close>,
  \<open>date_now\<close> the later \<^verbatim>\<open>Date.now()\<close> of the expiry computation, \<open>random_code\<close>
  the text of \<^verbatim>\<open>Math.floor(1000 + Math.random() * 9000)\<close>. \<open>OTP_EXPIRATION_TIME\<close> is
  \<^verbatim>\<open>Number(Deno.env.get("OTP_EXPIRATION_TIME")!)\<close>: a whole number of minutes (the
  granularity the specification gives the time-to-live), or \<open>None\<close> when the number is
  not finite (\<^verbatim>\<open>NaN\<close> for a variable that is unset or not numeric). \<open>list_users\<close> is the answer of \<^verbatim>\<open>auth.admin.listUsers\<close>: an error, or the ids
  of \<^verbatim>\<open>usersData.users\<close>.

  The clients of the table and of the auth service return their failures as
  \<^verbatim>\<open>error\<close> values: the \<open>_error\<close> fields say whether the call of that name returns
  one, \<open>delete_error\<close> for the delete of the verifying handler, whose result the
  handler drops. A statement of the table that returns an error leaves the table as it
  was. \<open>mail_ok\<close> is \<^verbatim>\<open>res.ok\<close> of the mail service; \<open>fetch_error\<close> says that the
  \<^verbatim>\<open>fetch\<close> rejects or its answer does not parse, an exception that ends in the
  \<^verbatim>\<open>catch\<close> clause of the handler.
\<close>

record env =
  now :: int
  date_now :: int
  OTP_EXPIRATION_TIME :: "int option"
  random_code :: string
  list_users :: "string + string list"
  cleanup_error :: bool
  count_error :: bool
  db_error :: bool
  fetch_error :: bool
  mail_ok :: bool
  select_error :: bool
  delete_error :: bool
  create_error :: "string option"
  update_error :: "string option"
  sign_in :: "string + session"

text \<open>The result of a handler: its response, the table afterwards, the calls made in order.\<close>

record outcome =
  reply :: response
  db :: otp_codes
  calls :: "call list"

text \<open>The responses of the handlers, under the names of the specification's taxonomy.\<close>

abbreviation MethodNotAllowed :: response where
  "MethodNotAllowed \<equiv> Response 405 (TextBody ''Method Not Allowed'')"

abbreviation MissingEmailOrPurpose :: response where
  "MissingEmailOrPurpose \<equiv> Response 400 (ErrorBody ''Missing email or purpose'')"

abbreviation MissingParameters :: response where
  "MissingParameters \<equiv> Response 400 (ErrorBody ''Missing parameters'')"

abbreviation AlreadyExists :: response where
  "AlreadyExists \<equiv> Response 400 (ErrorBody ''User already exists'')"

abbreviation CountFailed :: response where
  "CountFailed \<equiv> Response 500 (ErrorBody ''Failed to check existing OTPs'')"

abbreviation RateLimited :: response where
  "RateLimited \<equiv>
     Response 429 (ErrorBody ''Too many attempts. Please wait before requesting another OTP.'')"

abbreviation SaveFailed :: response where
  "SaveFailed \<equiv> Response 500 (ErrorBody ''Failed to save OTP'')"

abbreviation EmailSent :: response where
  "EmailSent \<equiv> Response 200 (MessageBody ''Email sent successfully'')"

abbreviation DeliveryError :: response where
  "DeliveryError \<equiv> Response 500 (ErrorBody ''Failed to send email'')"

abbreviation InternalServerError :: response where
  "InternalServerError \<equiv> Response 500 (ErrorBody ''Internal server error'')"

abbreviation InvalidOrExpired :: response where
  "InvalidOrExpired \<equiv> Response 401 (ErrorBody ''Invalid or expired OTP'')"

abbreviation InvalidCode :: response where
  "InvalidCode \<equiv> Response 401 (ErrorBody ''Invalid OTP code'')"

abbreviation NotFound :: response where
  "NotFound \<equiv> Response 404 (ErrorBody ''User not found'')"

abbreviation InvalidPurpose :: response where
  "InvalidPurpose \<equiv> Response 400 (ErrorBody ''Invalid purpose'')"

section \<open>The issuing handler\<close>

text \<open>\<^verbatim>\<open>!listError && usersData.users.length > 0\<close>\<close>

definition user_exists :: "env \<Rightarrow> bool" where
  "user_exists w = (case list_users w of Inl _ \<Rightarrow> False | Inr us \<Rightarrow> us \<noteq> [])"

text \<open>
  \<^verbatim>\<open>new Date(Date.now() + OTP_EXPIRATION_TIME * 60 * 1000).toISOString()\<close>. A
  \<^verbatim>\<open>Date\<close> holds an instant of at most 8.64e15 milliseconds either side of the epoch;
  for any other number, \<^verbatim>\<open>NaN\<close> among them, the date is invalid and
  \<^verbatim>\<open>toISOString\<close> throws a \<^verbatim>\<open>RangeError\<close>: the value \<open>None\<close>. The sum and the
  products are exact on the integers, as they are on the doubles of the source below
  \<open>2 ^ 53\<close>.
\<close>

definition valid_date :: "int \<Rightarrow> bool" where
  "valid_date t = (- 8640000000000000 \<le> t \<and> t \<le> 8640000000000000)"

definition expiresAt :: "env \<Rightarrow> int option" where
  "expiresAt w =
     (case OTP_EXPIRATION_TIME w of
        None \<Rightarrow> None
      | Some m \<Rightarrow>
          if valid_date (date_now w + m * 60 * 1000)
          then Some (date_now w + m * 60 * 1000) else None)"

text \<open>
  The handler from the cleanup on (lines 106 to 166), with the calls \<open>pre\<close> made so far.
  \<open>hashString\<close> is the SHA-256 hex digest of the platform, a parameter here. The
  exceptions of lines 152 and 165 end in the \<^verbatim>\<open>catch\<close> clause (lines 170 to 173).
\<close>

definition issue_from_cleanup ::
  "(string \<Rightarrow> string) \<Rightarrow> env \<Rightarrow> otp_codes \<Rightarrow> string \<Rightarrow> string \<Rightarrow> call list \<Rightarrow> outcome" where
  "issue_from_cleanup hashString w s e p pre =
     (let s1 = (if cleanup_error w then s else deleteExpired s e p (now w));
          tr = pre @ [StoreDeleteExpired, StoreCount]
      in if count_error w then \<lparr>reply = CountFailed, db = s1, calls = tr\<rparr>
         else if 3 \<le> length (activeOtps s1 e p (now w))
         then \<lparr>reply = RateLimited, db = s1, calls = tr\<rparr>
         else
           let code = random_code w;
               codeHash = hashString code
           in (case expiresAt w of
                 None \<Rightarrow> \<lparr>reply = InternalServerError, db = s1, calls = tr\<rparr>
               | Some expires \<Rightarrow>
                   if db_error w
                   then \<lparr>reply = SaveFailed, db = s1, calls = tr @ [StoreInsert]\<rparr>
                   else \<lparr>reply = (if fetch_error w then InternalServerError
                                  else if mail_ok w then EmailSent else DeliveryError),
                         db = insert_row s1 e codeHash p expires (now w),
                         calls = tr @ [StoreInsert, SendMail]\<rparr>))"

definition issue_otp :: "(string \<Rightarrow> string) \<Rightarrow> env \<Rightarrow> otp_codes \<Rightarrow> request \<Rightarrow> outcome" where
  "issue_otp hashString w s req =
     (if http_method req \<noteq> ''POST''
      then \<lparr>reply = MethodNotAllowed, db = s, calls = []\<rparr>
      else if body_email req = [] \<or> body_purpose req = []
      then \<lparr>reply = MissingEmailOrPurpose, db = s, calls = []\<rparr>
      else if body_purpose req = ''signup''
      then (if user_exists w
            then \<lparr>reply = AlreadyExists, db = s, calls = [AuthListUsers]\<rparr>
            else issue_from_cleanup hashString w s (body_email req) (body_purpose req)
                   [AuthListUsers])
      else issue_from_cleanup hashString w s (body_email req) (body_purpose req) [])"

section \<open>The verifying handler\<close>

text \<open>
  \<^verbatim>\<open>await supabase.from("otp_codes").delete().eq("email", email).eq("purpose", purpose)\<close>
  (lines 49, 91 and 111): the handler does not read the result, so a delete that returns
  an error goes unnoticed and the rows stay.
\<close>

definition delete_pair :: "env \<Rightarrow> otp_codes \<Rightarrow> string \<Rightarrow> string \<Rightarrow> otp_codes" where
  "delete_pair w s e p = (if delete_error w then s else deleteAll s e p)"

text \<open>The branch on the purpose (lines 60 to 118), taken after the hash has matched.\<close>

definition verify_branch :: "env \<Rightarrow> otp_codes \<Rightarrow> string \<Rightarrow> string \<Rightarrow> outcome" where
  "verify_branch w s e p =
     (if p = ''signup''
      then (case create_error w of
              Some m \<Rightarrow> \<lparr>reply = Response 400 (ErrorBody m), db = s,
                         calls = [StoreSelect, AuthCreateUser]\<rparr>
            | None \<Rightarrow>
               (case sign_in w of
                  Inl m \<Rightarrow> \<lparr>reply = Response 400 (ErrorBody m), db = s,
                            calls = [StoreSelect, AuthCreateUser, AuthSignIn]\<rparr>
                | Inr sess \<Rightarrow> \<lparr>reply = Response 200 (SessionBody sess), db = s,
                               calls = [StoreSelect, AuthCreateUser, AuthSignIn]\<rparr>))
      else if p = ''reset''
      then (case list_users w of
              Inl _ \<Rightarrow> \<lparr>reply = NotFound, db = delete_pair w s e p,
                        calls = [StoreSelect, AuthListUsers, StoreDeleteAll]\<rparr>
            | Inr [] \<Rightarrow> \<lparr>reply = NotFound, db = delete_pair w s e p,
                         calls = [StoreSelect, AuthListUsers, StoreDeleteAll]\<rparr>
            | Inr (user # _) \<Rightarrow>
               (case update_error w of
                  Some m \<Rightarrow> \<lparr>reply = Response 400 (ErrorBody m), db = s,
                             calls = [StoreSelect, AuthListUsers, AuthUpdateUserById]\<rparr>
                | None \<Rightarrow>
                   (case sign_in w of
                      Inl m \<Rightarrow> \<lparr>reply = Response 400 (ErrorBody m), db = s,
                                calls = [StoreSelect, AuthListUsers, AuthUpdateUserById,
                                         AuthSignIn]\<rparr>
                    | Inr sess \<Rightarrow> \<lparr>reply = Response 200 (SessionBody sess),
                                   db = delete_pair w s e p,
                                   calls = [StoreSelect, AuthListUsers, AuthUpdateUserById,
                                            AuthSignIn, StoreDeleteAll]\<rparr>)))
      else \<lparr>reply = InvalidPurpose, db = s, calls = [StoreSelect]\<rparr>)"

text \<open>
  \<^verbatim>\<open>const { data, error: selectError } = ...single()\<close>: \<open>None\<close> stands for
  \<^verbatim>\<open>selectError || !data\<close>, a failed read or no row.
\<close>

definition lookup :: "env \<Rightarrow> otp_codes \<Rightarrow> string \<Rightarrow> string \<Rightarrow> otp_code option" where
  "lookup w s e p = (if select_error w then None else findLatestActive s e p (now w))"

definition verify_otp :: "(string \<Rightarrow> string) \<Rightarrow> env \<Rightarrow> otp_codes \<Rightarrow> request \<Rightarrow> outcome" where
  "verify_otp hashString w s req =
     (if http_method req \<noteq> ''POST''
      then \<lparr>reply = MethodNotAllowed, db = s, calls = []\<rparr>
      else if body_email req = [] \<or> body_purpose req = [] \<or> body_code req = []
              \<or> body_password req = []
      then \<lparr>reply = MissingParameters, db = s, calls = []\<rparr>
      else (case lookup w s (body_email req) (body_purpose req) of
              None \<Rightarrow> \<lparr>reply = InvalidOrExpired,
                       db = delete_pair w s (body_email req) (body_purpose req),
                       calls = [StoreSelect, StoreDeleteAll]\<rparr>
            | Some data \<Rightarrow>
               if hashString (body_code req) \<noteq> code_hash data
               then \<lparr>reply = InvalidCode, db = s, calls = [StoreSelect]\<rparr>
               else verify_branch w s (body_email req) (body_purpose req)))"

text \<open>
  The verifying handler goes past its first two checks exactly when the request is a POST
  with all four fields present.
\<close>

definition fields_present :: "request \<Rightarrow> bool" where
  "fields_present req =
     (http_method req = ''POST'' \<and> body_email req \<noteq> [] \<and> body_purpose req \<noteq> []
      \<and> body_code req \<noteq> [] \<and> body_password req \<noteq> [])"

section \<open>Concrete requests, tables and collaborators\<close>

text \<open>
  Inputs for the evaluations below. \<open>example_hash\<close> stands in for the digest there (the
  general theorems hold for every \<open>hashString\<close>); \<open>quiet_env t\<close> is a world at instant
  \<open>t\<close> in which every collaborator answers without error and no account exists.
\<close>

definition example_hash :: "string \<Rightarrow> string" where
  "example_hash c = ''sha256:'' @ c"

definition post_request :: "string \<Rightarrow> string \<Rightarrow> string \<Rightarrow> string \<Rightarrow> request" where
  "post_request e p c pw =
     \<lparr>http_method = ''POST'', body_email = e, body_purpose = p, body_code = c,
      body_password = pw\<rparr>"

definition quiet_env :: "int \<Rightarrow> env" where
  "quiet_env t =
     \<lparr>now = t, date_now = t, OTP_EXPIRATION_TIME = Some 10, random_code = ''4821'',
      list_users = Inr [], cleanup_error = False, count_error = False, db_error = False,
      fetch_error = False, mail_ok = True, select_error = False, delete_error = False,
      create_error = None, update_error = None, sign_in = Inr ''session-token''\<rparr>"

definition otp_row :: "nat \<Rightarrow> string \<Rightarrow> string \<Rightarrow> string \<Rightarrow> int \<Rightarrow> otp_code" where
  "otp_row i e p c x =
     \<lparr>otp_id = i, email = e, code_hash = example_hash c, purpose = p, expires_at = x,
      created_at = 0\<rparr>"

definition one_code :: "string \<Rightarrow> string \<Rightarrow> string \<Rightarrow> int \<Rightarrow> otp_codes" where
  "one_code e p c x = \<lparr>rows = [otp_row 1 e p c x], next_id = 2\<rparr>"

definition two_codes ::
  "string \<Rightarrow> string \<Rightarrow> string \<Rightarrow> int \<Rightarrow> string \<Rightarrow> int \<Rightarrow> otp_codes" where
  "two_codes e p c x c' x' =
     \<lparr>rows = [otp_row 1 e p c x, otp_row 2 e p c' x'], next_id = 3\<rparr>"

definition three_codes :: "string \<Rightarrow> string \<Rightarrow> int \<Rightarrow> otp_codes" where
  "three_codes e p x =
     \<lparr>rows = [otp_row 1 e p ''1111'' x, otp_row 2 e p ''2222'' x, otp_row 3 e p ''3333'' x],
      next_id = 4\<rparr>"

lemmas example_defs = example_hash_def post_request_def quiet_env_def otp_row_def one_code_def
  two_codes_def three_codes_def

lemmas store_defs = for_pair_def expired_lt_def deleteExpired_def counted_gte_def
  activeOtps_def insert_row_def matched_gt_def activeRecords_def findLatestActive_def
  deleteAll_def

lemmas handler_defs = issue_otp_def issue_from_cleanup_def user_exists_def valid_date_def
  expiresAt_def verify_otp_def verify_branch_def delete_pair_def lookup_def
  fields_present_def Let_def

section \<open>The lookup returns the most recent active record\<close>

lemma latest_mem: "latest r xs \<in> set (r # xs)"
  by (induction xs arbitrary: r) auto

lemma latest_ge_start: "expires_at r \<le> expires_at (latest r xs)"
proof (induction xs arbitrary: r)
  case Nil
  show ?case by simp
next
  case (Cons y ys)
  have "expires_at r \<le> expires_at (if expires_at r < expires_at y then y else r)" by simp
  also have "\<dots> \<le> expires_at (latest (if expires_at r < expires_at y then y else r) ys)"
    by (rule Cons.IH)
  finally show ?case by simp
qed

lemma latest_ge: "x \<in> set xs \<Longrightarrow> expires_at x \<le> expires_at (latest r xs)"
proof (induction xs arbitrary: r)
  case Nil
  then show ?case by simp
next
  case (Cons y ys)
  show ?case
  proof (cases "x = y")
    case True
    have "expires_at y \<le> expires_at (if expires_at r < expires_at y then y else r)" by simp
    also have "\<dots> \<le> expires_at (latest (if expires_at r < expires_at y then y else r) ys)"
      by (rule latest_ge_start)
    finally show ?thesis using True by simp
  next
    case False
    with Cons.prems have "x \<in> set ys" by simp
    from Cons.IH [OF this] show ?thesis by simp
  qed
qed

lemma latest_filter:
  assumes up: "\<And>a b. P a \<Longrightarrow> expires_at a \<le> expires_at b \<Longrightarrow> P b"
  shows "P (latest r xs) \<Longrightarrow>
    (case filter P (r # xs) of [] \<Rightarrow> False | y # ys \<Rightarrow> latest y ys = latest r xs)"
proof (induction xs arbitrary: r)
  case Nil
  then show ?case by simp
next
  case (Cons x xs)
  show ?case
  proof (cases "expires_at r < expires_at x")
    case True
    with Cons.prems have pm: "P (latest x xs)" by simp
    from Cons.IH [OF pm] True up [of r x] show ?thesis
      by (auto split: list.splits if_splits)
  next
    case False
    with Cons.prems have pm: "P (latest r xs)" by simp
    from Cons.IH [OF pm] False up [of x r] show ?thesis
      by (auto split: list.splits if_splits)
  qed
qed

lemma findLatestActive_Some:
  assumes "findLatestActive s e p t = Some r"
  shows "r \<in> set (rows s)" "for_pair e p r" "t < expires_at r"
    "\<And>x. x \<in> set (rows s) \<Longrightarrow> for_pair e p x \<Longrightarrow> t < expires_at x \<Longrightarrow> expires_at x \<le> expires_at r"
proof -
  obtain y ys where f: "filter (matched_gt e p t) (rows s) = y # ys" and r: "r = latest y ys"
    using assms by (auto simp: findLatestActive_def activeRecords_def split: list.splits)
  have "r \<in> set (filter (matched_gt e p t) (rows s))"
    using latest_mem [of y ys] f r by simp
  then show "r \<in> set (rows s)" "for_pair e p r" "t < expires_at r"
    by (auto simp: matched_gt_def)
  fix x assume "x \<in> set (rows s)" "for_pair e p x" "t < expires_at x"
  then have "x \<in> set (y # ys)" using f [symmetric] by (simp add: matched_gt_def)
  then show "expires_at x \<le> expires_at r"
    using latest_ge [of x ys y] latest_ge_start [of y ys] r by auto
qed

lemma findLatestActive_None:
  "findLatestActive s e p t = None \<longleftrightarrow> activeRecords s e p t = []"
  by (simp add: findLatestActive_def split: list.splits)

lemma findLatestActive_later:
  assumes f: "findLatestActive s e p t = Some r" and le: "t \<le> t'" and lt: "t' < expires_at r"
  shows "findLatestActive s e p t' = Some r"
proof -
  obtain y ys where fy: "filter (matched_gt e p t) (rows s) = y # ys" and r: "r = latest y ys"
    using f by (auto simp: findLatestActive_def activeRecords_def split: list.splits)
  have eq: "filter (matched_gt e p t') (rows s) = filter (\<lambda>x. t' < expires_at x) (y # ys)"
    unfolding fy [symmetric] using le by (auto simp: matched_gt_def intro: filter_cong)
  have "case filter (\<lambda>x. t' < expires_at x) (y # ys) of [] \<Rightarrow> False | a # as \<Rightarrow> latest a as = latest y ys"
    by (rule latest_filter) (use lt r in auto)
  then obtain a as where "filter (\<lambda>x. t' < expires_at x) (y # ys) = a # as"
    and "latest a as = latest y ys"
    by (cases "filter (\<lambda>x. t' < expires_at x) (y # ys)") auto
  then show ?thesis
    unfolding findLatestActive_def activeRecords_def eq using r by simp
qed

section \<open>Facts about the table operations\<close>

lemma filter_length_mono:
  "(\<And>x. P x \<Longrightarrow> Q x) \<Longrightarrow> length (filter P xs) \<le> length (filter Q xs)"
  by (induction xs) auto

lemma activeRecords_le_activeOtps:
  "length (activeRecords s e p t) \<le> length (activeOtps s e p t)"
  unfolding activeRecords_def activeOtps_def length_map
  by (rule filter_length_mono) (simp add: matched_gt_def counted_gte_def)

lemma activeRecords_deleteExpired:
  "activeRecords (deleteExpired s e p t) e p t = activeRecords s e p t"
  by (auto simp: activeRecords_def deleteExpired_def matched_gt_def expired_lt_def
      intro: filter_cong)

lemma activeOtps_deleteExpired:
  "activeOtps (deleteExpired s e p t) e p t = activeOtps s e p t"
proof -
  have "filter (counted_gte e p t) (filter (Not \<circ> expired_lt e p t) (rows s))
        = filter (counted_gte e p t) (rows s)"
    by (auto simp: counted_gte_def expired_lt_def intro: filter_cong)
  then show ?thesis by (simp add: activeOtps_def deleteExpired_def)
qed

lemma activeRecords_deleteAll: "activeRecords (deleteAll s e p) e p t = []"
  by (simp add: activeRecords_def deleteAll_def matched_gt_def)

section \<open>Facts about the handlers\<close>

lemma expiresAt_list_users: "expiresAt (w\<lparr>list_users := x\<rparr>) = expiresAt w"
  by (simp add: expiresAt_def split: option.splits)

lemma issue_from_cleanup_list_users:
  "issue_from_cleanup H (w\<lparr>list_users := x\<rparr>) s e p pre = issue_from_cleanup H w s e p pre"
  by (simp add: issue_from_cleanup_def expiresAt_list_users Let_def split: option.splits)

text \<open>With three active records the issuing handler stops at the quota, or at the count.\<close>

lemma issue_from_cleanup_limited:
  assumes "3 \<le> length (activeRecords s e p (now w))"
  shows "issue_from_cleanup H w s e p pre =
     \<lparr>reply = (if count_error w then CountFailed else RateLimited),
      db = (if cleanup_error w then s else deleteExpired s e p (now w)),
      calls = pre @ [StoreDeleteExpired, StoreCount]\<rparr>"
proof -
  have "3 \<le> length (activeOtps s e p (now w))"
    using assms activeRecords_le_activeOtps [of s e p "now w"] by linarith
  then show ?thesis
    by (simp add: issue_from_cleanup_def Let_def activeOtps_deleteExpired)
qed

text \<open>The three ways through the verifying handler once the fields are present.\<close>

lemma verify_otp_not_found:
  assumes "fields_present req"
    and "lookup w s (body_email req) (body_purpose req) = None"
  shows "verify_otp H w s req =
     \<lparr>reply = InvalidOrExpired, db = delete_pair w s (body_email req) (body_purpose req),
      calls = [StoreSelect, StoreDeleteAll]\<rparr>"
  using assms by (simp add: verify_otp_def fields_present_def)

lemma verify_otp_mismatch:
  assumes "fields_present req"
    and "lookup w s (body_email req) (body_purpose req) = Some r"
    and "H (body_code req) \<noteq> code_hash r"
  shows "verify_otp H w s req = \<lparr>reply = InvalidCode, db = s, calls = [StoreSelect]\<rparr>"
  using assms by (simp add: verify_otp_def fields_present_def)

lemma verify_otp_found:
  assumes "fields_present req"
    and "lookup w s (body_email req) (body_purpose req) = Some r"
    and "H (body_code req) = code_hash r"
  shows "verify_otp H w s req = verify_branch w s (body_email req) (body_purpose req)"
  using assms by (simp add: verify_otp_def fields_present_def)

lemma verify_branch_other_purpose:
  assumes "p \<noteq> ''signup''" and "p \<noteq> ''reset''"
  shows "verify_branch w s e p = \<lparr>reply = InvalidPurpose, db = s, calls = [StoreSelect]\<rparr>"
  using assms by (simp add: verify_branch_def)

lemma verify_branch_not_401:
  "reply (verify_branch w s e p) \<noteq> InvalidCode
   \<and> reply (verify_branch w s e p) \<noteq> InvalidOrExpired"
  by (simp add: verify_branch_def split: option.splits sum.splits list.splits)

lemma verify_branch_success:
  assumes "sign_in w = Inr sess"
    and "p = ''signup'' \<and> create_error w = None
         \<or> p = ''reset'' \<and> list_users w = Inr (u # us) \<and> update_error w = None"
  shows "reply (verify_branch w s e p) = Response 200 (SessionBody sess)"
  using assms by (auto simp: verify_branch_def)

lemma verify_branch_success_only:
  assumes "reply (verify_branch w s e p) = Response 200 (SessionBody sess)"
  shows "sign_in w = Inr sess \<and>
     (p = ''signup'' \<and> create_error w = None
      \<or> p = ''reset'' \<and> (\<exists>u us. list_users w = Inr (u # us)) \<and> update_error w = None)"
  using assms
  by (auto simp: verify_branch_def split: if_splits option.splits sum.splits list.splits)

lemma verify_branch_reset_success:
  assumes "reply (verify_branch w s e ''reset'') = Response 200 (SessionBody sess)"
  shows "db (verify_branch w s e ''reset'') = delete_pair w s e ''reset''
     \<and> calls (verify_branch w s e ''reset'')
         = [StoreSelect, AuthListUsers, AuthUpdateUserById, AuthSignIn, StoreDeleteAll]"
  using assms
  by (auto simp: verify_branch_def split: option.splits sum.splits list.splits)

lemma verify_otp_success_only:
  assumes "reply (verify_otp H w s req) = Response 200 (SessionBody sess)"
  shows "fields_present req \<and>
     (\<exists>r. lookup w s (body_email req) (body_purpose req) = Some r
          \<and> H (body_code req) = code_hash r)
     \<and> reply (verify_branch w s (body_email req) (body_purpose req))
         = Response 200 (SessionBody sess)"
  using assms
  by (auto simp: verify_otp_def fields_present_def split: if_splits option.splits)

lemma lookup_Some_iff:
  "lookup w s e p = Some r \<longleftrightarrow> \<not> select_error w \<and> findLatestActive s e p (now w) = Some r"
  by (simp add: lookup_def)

lemma lookup_Some_active:
  assumes "lookup w s e p = Some r"
  shows "r \<in> set (rows s) \<and> for_pair e p r \<and> now w < expires_at r"
proof -
  from assms have "findLatestActive s e p (now w) = Some r"
    by (simp add: lookup_Some_iff)
  from findLatestActive_Some(1-3) [OF this] show ?thesis by simp
qed

lemma lookup_None_if_no_active:
  assumes "\<forall>x\<in>set (rows s). for_pair e p x \<longrightarrow> expires_at x \<le> now w"
  shows "lookup w s e p = None"
proof (cases "lookup w s e p")
  case None
  then show ?thesis .
next
  case (Some r)
  from lookup_Some_active [OF this] assms show ?thesis by fastforce
qed

section \<open>The issuing handler at the quota\<close>

text \<open>
  Claim C1, as amended. Take a POST with email and purpose present whose pair has at least
  three active records at \<open>now\<close>. The handler inserts no record and sends no mail, the
  table is the one it was given or that table without the pair's rows that expired before
  \<open>now\<close>, and the pair's active records are the same. The response is RateLimited
  unless an earlier step ends the request: a signup for an email the auth service lists
  answers "User already exists" before the table is touched, and a failed count query
  answers "Failed to check existing OTPs".
\<close>

theorem issue_at_quota:
  assumes "http_method req = ''POST''" and "body_email req \<noteq> []" and "body_purpose req \<noteq> []"
    and "3 \<le> length (activeRecords s (body_email req) (body_purpose req) (now w))"
  shows "reply (issue_otp H w s req) =
           (if body_purpose req = ''signup'' \<and> user_exists w then AlreadyExists
            else if count_error w then CountFailed else RateLimited)
       \<and> db (issue_otp H w s req) =
           (if (body_purpose req = ''signup'' \<and> user_exists w) \<or> cleanup_error w then s
            else deleteExpired s (body_email req) (body_purpose req) (now w))
       \<and> StoreInsert \<notin> set (calls (issue_otp H w s req))
       \<and> SendMail \<notin> set (calls (issue_otp H w s req))
       \<and> activeRecords (db (issue_otp H w s req)) (body_email req) (body_purpose req) (now w)
           = activeRecords s (body_email req) (body_purpose req) (now w)"
proof -
  let ?e = "body_email req" and ?p = "body_purpose req"
  have eq: "issue_otp H w s req =
      (if ?p = ''signup'' \<and> user_exists w
       then \<lparr>reply = AlreadyExists, db = s, calls = [AuthListUsers]\<rparr>
       else issue_from_cleanup H w s ?e ?p (if ?p = ''signup'' then [AuthListUsers] else []))"
    using assms(1-3) by (simp add: issue_otp_def)
  have lim: "issue_from_cleanup H w s ?e ?p pre =
      \<lparr>reply = (if count_error w then CountFailed else RateLimited),
       db = (if cleanup_error w then s else deleteExpired s ?e ?p (now w)),
       calls = pre @ [StoreDeleteExpired, StoreCount]\<rparr>" for pre
    by (rule issue_from_cleanup_limited [OF assms(4)])
  show ?thesis
    unfolding eq lim by (simp add: activeRecords_deleteExpired)
qed

text \<open>
  Three reset codes for \<open>a@x.com\<close> that expire at 5000, a fourth request at 1000:
  RateLimited, and the table is untouched.
\<close>

theorem issue_at_quota_witness:
  "reply (issue_otp example_hash (quiet_env 1000) (three_codes ''a@x.com'' ''reset'' 5000)
      (post_request ''a@x.com'' ''reset'' [] [])) = RateLimited
   \<and> db (issue_otp example_hash (quiet_env 1000) (three_codes ''a@x.com'' ''reset'' 5000)
      (post_request ''a@x.com'' ''reset'' [] [])) = three_codes ''a@x.com'' ''reset'' 5000"
proof -
  let ?s = "three_codes ''a@x.com'' ''reset'' 5000"
  let ?req = "post_request ''a@x.com'' ''reset'' [] []"
  have 1: "http_method ?req = ''POST''" and 2: "body_email ?req \<noteq> []"
    and 3: "body_purpose ?req \<noteq> []"
    by (simp_all add: post_request_def)
  have 4: "3 \<le> length (activeRecords ?s (body_email ?req) (body_purpose ?req)
      (now (quiet_env 1000)))"
    by (simp add: store_defs example_defs)
  from issue_at_quota [OF 1 2 3 4, of example_hash] show ?thesis
    by (simp add: store_defs example_defs)
qed

text \<open>
  Claim C1 as stated fails: three active signup codes for \<open>a@x.com\<close>, and an account for
  that email exists (the signup branch of the verifying handler leaves the codes in the
  table). The request is answered "User already exists", not RateLimited.
\<close>

theorem issue_at_quota_already_exists:
  "3 \<le> length (activeRecords (three_codes ''a@x.com'' ''signup'' 5000)
            ''a@x.com'' ''signup'' 1000)
   \<and> reply (issue_otp example_hash ((quiet_env 1000)\<lparr>list_users := Inr [''user-1'']\<rparr>)
        (three_codes ''a@x.com'' ''signup'' 5000) (post_request ''a@x.com'' ''signup'' [] []))
      = AlreadyExists
   \<and> reply (issue_otp example_hash ((quiet_env 1000)\<lparr>list_users := Inr [''user-1'']\<rparr>)
        (three_codes ''a@x.com'' ''signup'' 5000) (post_request ''a@x.com'' ''signup'' [] []))
      \<noteq> RateLimited"
  by (simp add: handler_defs store_defs example_defs)

section \<open>When verification succeeds\<close>

text \<open>
  Claim C2, as amended. The verifying handler answers 200 with a session exactly when the
  request is a POST with all four fields, the lookup succeeds and returns the most recent
  active record of the pair, the hash of the submitted code equals its \<open>code_hash\<close>, and
  the auth service goes along: for signup the account is created, for reset an account is
  listed and its password updated, and in both the sign-in returns the session. No other
  purpose succeeds.
\<close>

theorem verify_succeeds_iff:
  "reply (verify_otp H w s req) = Response 200 (SessionBody sess) \<longleftrightarrow>
     fields_present req \<and> \<not> select_error w
     \<and> (\<exists>r. findLatestActive s (body_email req) (body_purpose req) (now w) = Some r
            \<and> H (body_code req) = code_hash r)
     \<and> sign_in w = Inr sess
     \<and> (body_purpose req = ''signup'' \<and> create_error w = None
        \<or> body_purpose req = ''reset'' \<and> (\<exists>u us. list_users w = Inr (u # us))
           \<and> update_error w = None)"
  (is "?L \<longleftrightarrow> ?R")
proof
  assume ?L
  from verify_otp_success_only [OF this]
  obtain r where f: "fields_present req"
    and l: "lookup w s (body_email req) (body_purpose req) = Some r"
    and h: "H (body_code req) = code_hash r"
    and b: "reply (verify_branch w s (body_email req) (body_purpose req))
              = Response 200 (SessionBody sess)"
    by blast
  from l have "\<not> select_error w"
    and "findLatestActive s (body_email req) (body_purpose req) (now w) = Some r"
    by (simp_all add: lookup_Some_iff)
  with f h verify_branch_success_only [OF b] show ?R by blast
next
  assume R: ?R
  then obtain r where "lookup w s (body_email req) (body_purpose req) = Some r"
    and "H (body_code req) = code_hash r"
    by (auto simp: lookup_Some_iff)
  with R have "verify_otp H w s req = verify_branch w s (body_email req) (body_purpose req)"
    by (simp add: verify_otp_found)
  moreover from R have "reply (verify_branch w s (body_email req) (body_purpose req))
      = Response 200 (SessionBody sess)"
    by (auto intro: verify_branch_success)
  ultimately show ?L by simp
qed

text \<open>A signup code, the right code submitted before it expires, a willing auth service.\<close>

theorem verify_succeeds_iff_witness:
  "reply (verify_otp example_hash (quiet_env 1000) (one_code ''a@x.com'' ''signup'' ''1234'' 5000)
      (post_request ''a@x.com'' ''signup'' ''1234'' ''pw'')) = Response 200 (SessionBody ''session-token'')"
proof -
  let ?s = "one_code ''a@x.com'' ''signup'' ''1234'' 5000"
  let ?req = "post_request ''a@x.com'' ''signup'' ''1234'' ''pw''"
  have "fields_present ?req \<and> \<not> select_error (quiet_env 1000)
     \<and> (\<exists>r. findLatestActive ?s (body_email ?req) (body_purpose ?req) (now (quiet_env 1000))
              = Some r \<and> example_hash (body_code ?req) = code_hash r)
     \<and> sign_in (quiet_env 1000) = Inr ''session-token''
     \<and> (body_purpose ?req = ''signup'' \<and> create_error (quiet_env 1000) = None
        \<or> body_purpose ?req = ''reset''
           \<and> (\<exists>u us. list_users (quiet_env 1000) = Inr (u # us))
           \<and> update_error (quiet_env 1000) = None)"
    by (simp add: fields_present_def store_defs example_defs)
  then show ?thesis
    by (rule iffD2 [OF verify_succeeds_iff])
qed

text \<open>
  Claim C2 as stated fails: the submitted code hashes to the \<open>code_hash\<close> of the most
  recent active signup record, and the request is refused, because the account exists
  already (a second verification with the same code, which the first one left in the table).
\<close>

theorem verify_match_provider_refuses:
  "findLatestActive (one_code ''a@x.com'' ''signup'' ''1234'' 5000) ''a@x.com'' ''signup'' 1000
     = Some (otp_row 1 ''a@x.com'' ''signup'' ''1234'' 5000)
   \<and> example_hash ''1234'' = code_hash (otp_row 1 ''a@x.com'' ''signup'' ''1234'' 5000)
   \<and> reply (verify_otp example_hash
        ((quiet_env 1000)\<lparr>create_error := Some ''User already registered''\<rparr>)
        (one_code ''a@x.com'' ''signup'' ''1234'' 5000)
        (post_request ''a@x.com'' ''signup'' ''1234'' ''pw''))
      = Response 400 (ErrorBody ''User already registered'')"
  by (simp add: handler_defs store_defs example_defs)

section \<open>A purpose that is neither signup nor reset\<close>

text \<open>
  Claim C3, as amended. For a purpose other than signup and reset (all four fields present)
  the verifying handler reads the table first and never calls the auth service; it never
  answers with a session. It answers "Invalid purpose" exactly when the lookup returns an
  active record whose \<open>code_hash\<close> is the hash of the submitted code, and then the table
  is unchanged and the read was the only call.
\<close>

theorem verify_other_purpose:
  assumes "fields_present req"
    and "body_purpose req \<noteq> ''signup''" and "body_purpose req \<noteq> ''reset''"
  shows "(\<exists>rest. calls (verify_otp H w s req) = StoreSelect # rest)
     \<and> set (calls (verify_otp H w s req)) \<subseteq> {StoreSelect, StoreDeleteAll}
     \<and> reply (verify_otp H w s req) \<in> {InvalidOrExpired, InvalidCode, InvalidPurpose}
     \<and> (reply (verify_otp H w s req) = InvalidPurpose \<longleftrightarrow>
          (\<exists>r. lookup w s (body_email req) (body_purpose req) = Some r
               \<and> H (body_code req) = code_hash r))
     \<and> (reply (verify_otp H w s req) = InvalidPurpose \<longrightarrow>
          db (verify_otp H w s req) = s \<and> calls (verify_otp H w s req) = [StoreSelect])"
proof (cases "lookup w s (body_email req) (body_purpose req)")
  case None
  from verify_otp_not_found [OF assms(1) None, of H] None show ?thesis by simp
next
  case (Some r)
  show ?thesis
  proof (cases "H (body_code req) = code_hash r")
    case True
    have "verify_otp H w s req = \<lparr>reply = InvalidPurpose, db = s, calls = [StoreSelect]\<rparr>"
      using verify_otp_found [where H = H, OF assms(1) Some True]
        verify_branch_other_purpose [OF assms(2,3)] by simp
    with Some True show ?thesis by simp
  next
    case False
    from verify_otp_mismatch [where H = H, OF assms(1) Some False] Some False
    show ?thesis by simp
  qed
qed

text \<open>A stored row with purpose \<open>bogus\<close> and the right code: "Invalid purpose", one read.\<close>

theorem verify_other_purpose_witness:
  "reply (verify_otp example_hash (quiet_env 1000) (one_code ''a@x.com'' ''bogus'' ''1234'' 5000)
      (post_request ''a@x.com'' ''bogus'' ''1234'' ''pw'')) = InvalidPurpose
   \<and> db (verify_otp example_hash (quiet_env 1000) (one_code ''a@x.com'' ''bogus'' ''1234'' 5000)
      (post_request ''a@x.com'' ''bogus'' ''1234'' ''pw''))
      = one_code ''a@x.com'' ''bogus'' ''1234'' 5000
   \<and> calls (verify_otp example_hash (quiet_env 1000)
      (one_code ''a@x.com'' ''bogus'' ''1234'' 5000)
      (post_request ''a@x.com'' ''bogus'' ''1234'' ''pw'')) = [StoreSelect]"
proof -
  let ?s = "one_code ''a@x.com'' ''bogus'' ''1234'' 5000"
  let ?req = "post_request ''a@x.com'' ''bogus'' ''1234'' ''pw''"
  have 1: "fields_present ?req" and 2: "body_purpose ?req \<noteq> ''signup''"
    and 3: "body_purpose ?req \<noteq> ''reset''"
    by (simp_all add: fields_present_def post_request_def)
  have 4: "\<exists>r. lookup (quiet_env 1000) ?s (body_email ?req) (body_purpose ?req) = Some r
      \<and> example_hash (body_code ?req) = code_hash r"
    by (simp add: lookup_def store_defs example_defs)
  from verify_other_purpose [OF 1 2 3, of example_hash "quiet_env 1000" ?s] 4
  show ?thesis by blast
qed

text \<open>
  Claim C3 as stated fails: with an empty table the request with purpose \<open>bogus\<close> is
  answered "Invalid or expired OTP", after a read of the table and a delete.
\<close>

theorem verify_bogus_purpose_reads_store:
  "reply (verify_otp example_hash (quiet_env 1000) \<lparr>rows = [], next_id = 1\<rparr>
      (post_request ''a@x.com'' ''bogus'' ''1234'' ''pw'')) = InvalidOrExpired
   \<and> reply (verify_otp example_hash (quiet_env 1000) \<lparr>rows = [], next_id = 1\<rparr>
      (post_request ''a@x.com'' ''bogus'' ''1234'' ''pw'')) \<noteq> InvalidPurpose
   \<and> calls (verify_otp example_hash (quiet_env 1000) \<lparr>rows = [], next_id = 1\<rparr>
      (post_request ''a@x.com'' ''bogus'' ''1234'' ''pw'')) = [StoreSelect, StoreDeleteAll]"
  by (simp add: handler_defs store_defs example_defs)

section \<open>The issuing handler and the purpose\<close>

text \<open>
  Claim C4 fails on the code. The issuing handler compares the purpose with \<open>signup\<close>
  only; for \<open>bogus\<close> it runs the cleanup and the count, inserts a row whose purpose is
  \<open>bogus\<close> and sends the mail. The migration documents the column as
  \<^verbatim>\<open>'signup' or 'reset'\<close>, and the verifying handler has an "Invalid purpose" answer.
\<close>

theorem issue_bogus_purpose_inserts:
  "issue_otp example_hash (quiet_env 1000) \<lparr>rows = [], next_id = 1\<rparr>
     (post_request ''a@x.com'' ''bogus'' [] []) =
   \<lparr>reply = EmailSent,
    db = \<lparr>rows = [\<lparr>otp_id = 1, email = ''a@x.com'', code_hash = ''sha256:4821'',
                    purpose = ''bogus'', expires_at = 601000, created_at = 1000\<rparr>],
          next_id = 2\<rparr>,
    calls = [StoreDeleteExpired, StoreCount, StoreInsert, SendMail]\<rparr>"
  by (simp add: handler_defs store_defs example_defs)

section \<open>Two notions of an active record\<close>

text \<open>
  Claim C5 fails on the code. The count of the issuing handler takes the rows with
  \<open>expires_at \<ge> now\<close>, the lookup of the verifying handler those with
  \<open>expires_at > now\<close>. Three codes that expire at the very instant of the request: none
  is active, the lookup finds none, and the issuing handler counts three and answers
  RateLimited.
\<close>

theorem issuer_counts_record_expiring_now:
  "activeRecords (three_codes ''a@x.com'' ''reset'' 1000) ''a@x.com'' ''reset'' 1000 = []
   \<and> findLatestActive (three_codes ''a@x.com'' ''reset'' 1000) ''a@x.com'' ''reset'' 1000 = None
   \<and> activeOtps (three_codes ''a@x.com'' ''reset'' 1000) ''a@x.com'' ''reset'' 1000 = [1, 2, 3]
   \<and> reply (issue_otp example_hash (quiet_env 1000) (three_codes ''a@x.com'' ''reset'' 1000)
         (post_request ''a@x.com'' ''reset'' [] [])) = RateLimited"
  by (simp add: handler_defs store_defs example_defs)

section \<open>Expired records\<close>

text \<open>
  Claim C6, as amended. With all four fields present, no expired record is ever matched.
  When no record of the pair expires later than \<open>now\<close>, the answer is "Invalid or
  expired OTP" whatever the submitted code, also when its hash is the \<open>code_hash\<close> of
  one of those records. Whenever the answer is anything else, the pair has a record that
  expires later than \<open>now\<close>, and a most recent one among these decides: the answer is
  "Invalid OTP code" exactly when the hash of the submitted code differs from its
  \<open>code_hash\<close>, so every other answer, a session included, needs the hash of an active
  record.
\<close>

theorem verify_never_matches_expired:
  assumes "fields_present req"
  shows "((\<forall>x\<in>set (rows s). for_pair (body_email req) (body_purpose req) x
            \<longrightarrow> expires_at x \<le> now w)
          \<longrightarrow> reply (verify_otp H w s req) = InvalidOrExpired)
     \<and> (reply (verify_otp H w s req) \<noteq> InvalidOrExpired \<longrightarrow>
          (\<exists>r\<in>set (rows s).
             for_pair (body_email req) (body_purpose req) r \<and> now w < expires_at r
             \<and> (\<forall>x\<in>set (rows s).
                   for_pair (body_email req) (body_purpose req) x \<and> now w < expires_at x
                   \<longrightarrow> expires_at x \<le> expires_at r)
             \<and> (reply (verify_otp H w s req) = InvalidCode
                  \<longleftrightarrow> H (body_code req) \<noteq> code_hash r)))"
proof (intro conjI impI)
  assume "\<forall>x\<in>set (rows s). for_pair (body_email req) (body_purpose req) x
      \<longrightarrow> expires_at x \<le> now w"
  then have "lookup w s (body_email req) (body_purpose req) = None"
    by (rule lookup_None_if_no_active)
  from verify_otp_not_found [OF assms this, of H]
  show "reply (verify_otp H w s req) = InvalidOrExpired" by simp
next
  let ?e = "body_email req" and ?p = "body_purpose req"
  assume other: "reply (verify_otp H w s req) \<noteq> InvalidOrExpired"
  have "lookup w s ?e ?p \<noteq> None"
  proof
    assume "lookup w s ?e ?p = None"
    from verify_otp_not_found [OF assms this, of H] other show False by simp
  qed
  then obtain r where l: "lookup w s ?e ?p = Some r" by blast
  then have f: "findLatestActive s ?e ?p (now w) = Some r"
    by (simp add: lookup_Some_iff)
  have "reply (verify_otp H w s req) = InvalidCode \<longleftrightarrow> H (body_code req) \<noteq> code_hash r"
  proof (cases "H (body_code req) = code_hash r")
    case True
    have "verify_otp H w s req = verify_branch w s ?e ?p"
      by (rule verify_otp_found [where H = H, OF assms l True])
    with True verify_branch_not_401 [of w s ?e ?p] show ?thesis by auto
  next
    case False
    from verify_otp_mismatch [where H = H, OF assms l False] False show ?thesis by simp
  qed
  with findLatestActive_Some [OF f]
  show "\<exists>r\<in>set (rows s).
      for_pair ?e ?p r \<and> now w < expires_at r
      \<and> (\<forall>x\<in>set (rows s). for_pair ?e ?p x \<and> now w < expires_at x
            \<longrightarrow> expires_at x \<le> expires_at r)
      \<and> (reply (verify_otp H w s req) = InvalidCode \<longleftrightarrow> H (body_code req) \<noteq> code_hash r)"
    by blast
qed

text \<open>
  A reset code that expires at 1000, verified at 1000 with the right code: refused. And in a
  table with a code expired at 500 and one expiring at 5000, the code of the second gets a
  session, so an active record with that hash is in the table.
\<close>

theorem verify_never_matches_expired_witness:
  "reply (verify_otp example_hash (quiet_env 1000)
      (one_code ''a@x.com'' ''reset'' ''1234'' 1000)
      (post_request ''a@x.com'' ''reset'' ''1234'' ''pw'')) = InvalidOrExpired
   \<and> (\<exists>r\<in>set (rows (two_codes ''a@x.com'' ''reset'' ''1111'' 500 ''2222'' 5000)).
        for_pair ''a@x.com'' ''reset'' r \<and> 1000 < expires_at r
        \<and> example_hash ''2222'' = code_hash r)"
proof -
  let ?req = "post_request ''a@x.com'' ''reset'' ''1234'' ''pw''"
  let ?req2 = "post_request ''a@x.com'' ''reset'' ''2222'' ''pw''"
  let ?w = "quiet_env 1000"
  let ?w2 = "(quiet_env 1000)\<lparr>list_users := Inr [''user-1'']\<rparr>"
  let ?s = "one_code ''a@x.com'' ''reset'' ''1234'' 1000"
  let ?s2 = "two_codes ''a@x.com'' ''reset'' ''1111'' 500 ''2222'' 5000"
  have f: "fields_present ?req" and f2: "fields_present ?req2"
    by (simp_all add: fields_present_def post_request_def)
  have old: "\<forall>x\<in>set (rows ?s). for_pair (body_email ?req) (body_purpose ?req) x
      \<longrightarrow> expires_at x \<le> now ?w"
    by (simp add: store_defs example_defs)
  have ok: "reply (verify_otp example_hash ?w2 ?s2 ?req2)
      = Response 200 (SessionBody ''session-token'')"
    by (simp add: handler_defs store_defs example_defs)
  from verify_never_matches_expired [OF f, of ?s ?w example_hash] old
  have 1: "reply (verify_otp example_hash ?w ?s ?req) = InvalidOrExpired"
    by blast
  from verify_never_matches_expired [OF f2, of ?s2 ?w2 example_hash] ok
  have "\<exists>r\<in>set (rows ?s2).
      for_pair (body_email ?req2) (body_purpose ?req2) r \<and> now ?w2 < expires_at r
      \<and> example_hash (body_code ?req2) = code_hash r"
    by auto
  then have 2: "\<exists>r\<in>set (rows ?s2).
      for_pair ''a@x.com'' ''reset'' r \<and> 1000 < expires_at r
      \<and> example_hash ''2222'' = code_hash r"
    by (simp add: post_request_def quiet_env_def)
  from 1 2 show ?thesis by blast
qed

text \<open>
  Claim C6 as stated fails: the code of a record that expired at 500 is submitted at 1000,
  while a newer record of the pair is still active. The answer is "Invalid OTP code", not
  "Invalid or expired OTP": the newer record decides.
\<close>

theorem verify_expired_beside_active:
  "otp_row 1 ''a@x.com'' ''reset'' ''1111'' 500
     \<in> set (rows (two_codes ''a@x.com'' ''reset'' ''1111'' 500 ''2222'' 5000))
   \<and> expires_at (otp_row 1 ''a@x.com'' ''reset'' ''1111'' 500) \<le> 1000
   \<and> example_hash ''1111'' = code_hash (otp_row 1 ''a@x.com'' ''reset'' ''1111'' 500)
   \<and> reply (verify_otp example_hash (quiet_env 1000)
        (two_codes ''a@x.com'' ''reset'' ''1111'' 500 ''2222'' 5000)
        (post_request ''a@x.com'' ''reset'' ''1111'' ''pw'')) = InvalidCode
   \<and> reply (verify_otp example_hash (quiet_env 1000)
        (two_codes ''a@x.com'' ''reset'' ''1111'' 500 ''2222'' 5000)
        (post_request ''a@x.com'' ''reset'' ''1111'' ''pw'')) \<noteq> InvalidOrExpired"
  by (simp add: handler_defs store_defs example_defs)

section \<open>A wrong code leaves the table alone\<close>

text \<open>
  Claim C7. When the lookup finds an active record and the hash of the submitted code
  differs from its \<open>code_hash\<close>, the answer is "Invalid OTP code", the table is exactly
  the one before and the read was the only call. A later request on the resulting table,
  made before that record expires with a code that hashes to its \<open>code_hash\<close>, succeeds
  whenever the lookup and the auth service answer: there is no count of attempts.
\<close>

theorem verify_mismatch_keeps_store:
  assumes "fields_present req"
    and "lookup w s (body_email req) (body_purpose req) = Some r"
    and "H (body_code req) \<noteq> code_hash r"
  shows "verify_otp H w s req = \<lparr>reply = InvalidCode, db = s, calls = [StoreSelect]\<rparr>
     \<and> (\<forall>w' c sess u us.
           now w \<le> now w' \<and> now w' < expires_at r \<and> \<not> select_error w'
           \<and> c \<noteq> [] \<and> H c = code_hash r \<and> sign_in w' = Inr sess
           \<and> (body_purpose req = ''signup'' \<and> create_error w' = None
              \<or> body_purpose req = ''reset'' \<and> list_users w' = Inr (u # us)
                 \<and> update_error w' = None)
           \<longrightarrow> reply (verify_otp H w' (db (verify_otp H w s req)) (req\<lparr>body_code := c\<rparr>))
                 = Response 200 (SessionBody sess))"
proof (intro conjI allI impI)
  show first: "verify_otp H w s req = \<lparr>reply = InvalidCode, db = s, calls = [StoreSelect]\<rparr>"
    by (rule verify_otp_mismatch [where H = H, OF assms])
  fix w' :: env and c sess u us
  let ?req' = "req\<lparr>body_code := c\<rparr>"
  assume later: "now w \<le> now w' \<and> now w' < expires_at r \<and> \<not> select_error w'
           \<and> c \<noteq> [] \<and> H c = code_hash r \<and> sign_in w' = Inr sess
           \<and> (body_purpose req = ''signup'' \<and> create_error w' = None
              \<or> body_purpose req = ''reset'' \<and> list_users w' = Inr (u # us)
                 \<and> update_error w' = None)"
  from assms(2) have "findLatestActive s (body_email req) (body_purpose req) (now w) = Some r"
    by (simp add: lookup_Some_iff)
  with later have "findLatestActive s (body_email req) (body_purpose req) (now w') = Some r"
    by (blast intro: findLatestActive_later)
  with later have l: "lookup w' s (body_email ?req') (body_purpose ?req') = Some r"
    by (simp add: lookup_Some_iff)
  from assms(1) later have f: "fields_present ?req'"
    by (simp add: fields_present_def)
  from later have h: "H (body_code ?req') = code_hash r" by simp
  have "verify_otp H w' s ?req' = verify_branch w' s (body_email req) (body_purpose req)"
    using verify_otp_found [where H = H, OF f l h] by simp
  moreover have "reply (verify_branch w' s (body_email req) (body_purpose req))
      = Response 200 (SessionBody sess)"
    using later by (blast intro: verify_branch_success)
  ultimately show "reply (verify_otp H w' (db (verify_otp H w s req)) ?req')
      = Response 200 (SessionBody sess)"
    by (simp add: first)
qed

text \<open>
  A signup code \<open>1234\<close> that expires at 5000: \<open>0000\<close> submitted at 1000 is refused and
  the table stays; \<open>1234\<close> submitted at 2000 on that table gets the session.
\<close>

theorem verify_mismatch_keeps_store_witness:
  "verify_otp example_hash (quiet_env 1000) (one_code ''a@x.com'' ''signup'' ''1234'' 5000)
      (post_request ''a@x.com'' ''signup'' ''0000'' ''pw'')
     = \<lparr>reply = InvalidCode, db = one_code ''a@x.com'' ''signup'' ''1234'' 5000,
        calls = [StoreSelect]\<rparr>
   \<and> reply (verify_otp example_hash (quiet_env 2000)
        (db (verify_otp example_hash (quiet_env 1000)
               (one_code ''a@x.com'' ''signup'' ''1234'' 5000)
               (post_request ''a@x.com'' ''signup'' ''0000'' ''pw'')))
        (post_request ''a@x.com'' ''signup'' ''1234'' ''pw''))
     = Response 200 (SessionBody ''session-token'')"
proof -
  let ?s = "one_code ''a@x.com'' ''signup'' ''1234'' 5000"
  let ?req = "post_request ''a@x.com'' ''signup'' ''0000'' ''pw''"
  let ?r = "otp_row 1 ''a@x.com'' ''signup'' ''1234'' 5000"
  have f: "fields_present ?req"
    by (simp add: fields_present_def post_request_def)
  have l: "lookup (quiet_env 1000) ?s (body_email ?req) (body_purpose ?req) = Some ?r"
    by (simp add: lookup_def store_defs example_defs)
  have h: "example_hash (body_code ?req) \<noteq> code_hash ?r"
    by (simp add: example_defs)
  have later: "now (quiet_env 1000) \<le> now (quiet_env 2000)
      \<and> now (quiet_env 2000) < expires_at ?r \<and> \<not> select_error (quiet_env 2000)
      \<and> ''1234'' \<noteq> [] \<and> example_hash ''1234'' = code_hash ?r
      \<and> sign_in (quiet_env 2000) = Inr ''session-token''
      \<and> (body_purpose ?req = ''signup'' \<and> create_error (quiet_env 2000) = None
         \<or> body_purpose ?req = ''reset'' \<and> list_users (quiet_env 2000) = Inr ([] # [])
            \<and> update_error (quiet_env 2000) = None)"
    by (simp add: example_defs)
  have upd: "?req\<lparr>body_code := ''1234''\<rparr> = post_request ''a@x.com'' ''signup'' ''1234'' ''pw''"
    by (simp add: post_request_def)
  note main = verify_mismatch_keeps_store [where H = example_hash, OF f l h]
  from main have "verify_otp example_hash (quiet_env 1000) ?s ?req
      = \<lparr>reply = InvalidCode, db = ?s, calls = [StoreSelect]\<rparr>"
    by (rule conjunct1)
  moreover from main later
  have "reply (verify_otp example_hash (quiet_env 2000)
        (db (verify_otp example_hash (quiet_env 1000) ?s ?req))
        (?req\<lparr>body_code := ''1234''\<rparr>)) = Response 200 (SessionBody ''session-token'')"
    by blast
  ultimately show ?thesis
    unfolding upd by simp
qed

section \<open>A successful reset clears the pair\<close>

text \<open>
  Claim C8, as amended. A reset verification that answers 200 with a session has called
  the delete for the pair as its last step, after the sign-in. When that delete takes
  effect, the table is the one before without any row of the pair: no record of the pair
  remains, so none is active at any instant. The handler does not read the result of the
  delete: when it returns an error the answer is the same 200 and the table is unchanged.
\<close>

theorem verify_reset_success_clears_pair:
  assumes "reply (verify_otp H w s req) = Response 200 (SessionBody sess)"
    and "body_purpose req = ''reset''"
  shows "calls (verify_otp H w s req)
         = [StoreSelect, AuthListUsers, AuthUpdateUserById, AuthSignIn, StoreDeleteAll]
     \<and> db (verify_otp H w s req)
         = (if delete_error w then s else deleteAll s (body_email req) ''reset'')
     \<and> (\<not> delete_error w \<longrightarrow>
          activeRecords (db (verify_otp H w s req)) (body_email req) ''reset'' t = []
          \<and> (\<forall>r\<in>set (rows (db (verify_otp H w s req))).
                \<not> for_pair (body_email req) ''reset'' r))"
proof -
  from verify_otp_success_only [OF assms(1)] obtain r
    where f: "fields_present req"
      and l: "lookup w s (body_email req) (body_purpose req) = Some r"
      and h: "H (body_code req) = code_hash r"
    by blast
  have eq: "verify_otp H w s req = verify_branch w s (body_email req) ''reset''"
    using verify_otp_found [where H = H, OF f l h] assms(2) by simp
  with assms(1) have "reply (verify_branch w s (body_email req) ''reset'')
      = Response 200 (SessionBody sess)" by simp
  from verify_branch_reset_success [OF this] show ?thesis
    unfolding eq
    by (simp add: delete_pair_def activeRecords_deleteAll) (simp add: deleteAll_def)
qed

text \<open>
  Two active reset codes for \<open>a@x.com\<close> and one signup code; the newer reset code is
  verified and the delete runs. Both reset codes are gone, the signup code stays.
\<close>

theorem verify_reset_success_clears_pair_witness:
  "reply (verify_otp example_hash ((quiet_env 1000)\<lparr>list_users := Inr [''user-1'']\<rparr>)
      \<lparr>rows = [otp_row 1 ''a@x.com'' ''reset'' ''1111'' 4000,
               otp_row 2 ''a@x.com'' ''signup'' ''5555'' 5000,
               otp_row 3 ''a@x.com'' ''reset'' ''2222'' 5000], next_id = 4\<rparr>
      (post_request ''a@x.com'' ''reset'' ''2222'' ''pw''))
     = Response 200 (SessionBody ''session-token'')
   \<and> db (verify_otp example_hash ((quiet_env 1000)\<lparr>list_users := Inr [''user-1'']\<rparr>)
      \<lparr>rows = [otp_row 1 ''a@x.com'' ''reset'' ''1111'' 4000,
               otp_row 2 ''a@x.com'' ''signup'' ''5555'' 5000,
               otp_row 3 ''a@x.com'' ''reset'' ''2222'' 5000], next_id = 4\<rparr>
      (post_request ''a@x.com'' ''reset'' ''2222'' ''pw''))
     = \<lparr>rows = [otp_row 2 ''a@x.com'' ''signup'' ''5555'' 5000], next_id = 4\<rparr>
   \<and> activeRecords
       (db (verify_otp example_hash ((quiet_env 1000)\<lparr>list_users := Inr [''user-1'']\<rparr>)
          \<lparr>rows = [otp_row 1 ''a@x.com'' ''reset'' ''1111'' 4000,
                   otp_row 2 ''a@x.com'' ''signup'' ''5555'' 5000,
                   otp_row 3 ''a@x.com'' ''reset'' ''2222'' 5000], next_id = 4\<rparr>
          (post_request ''a@x.com'' ''reset'' ''2222'' ''pw'')))
       ''a@x.com'' ''reset'' 1000 = []"
proof -
  let ?w = "(quiet_env 1000)\<lparr>list_users := Inr [''user-1'']\<rparr>"
  let ?s = "\<lparr>rows = [otp_row 1 ''a@x.com'' ''reset'' ''1111'' 4000,
               otp_row 2 ''a@x.com'' ''signup'' ''5555'' 5000,
               otp_row 3 ''a@x.com'' ''reset'' ''2222'' 5000], next_id = 4\<rparr>"
  let ?req = "post_request ''a@x.com'' ''reset'' ''2222'' ''pw''"
  have ok: "reply (verify_otp example_hash ?w ?s ?req)
      = Response 200 (SessionBody ''session-token'')"
    by (simp add: handler_defs store_defs example_defs)
  have p: "body_purpose ?req = ''reset''" and e: "body_email ?req = ''a@x.com''"
    by (simp_all add: post_request_def)
  have d: "\<not> delete_error ?w"
    by (simp add: quiet_env_def)
  note main = verify_reset_success_clears_pair [OF ok p, of 1000]
  from main d have "db (verify_otp example_hash ?w ?s ?req)
      = deleteAll ?s (body_email ?req) ''reset''"
    by simp
  moreover from main d
  have "activeRecords (db (verify_otp example_hash ?w ?s ?req)) (body_email ?req) ''reset'' 1000
      = []"
    by blast
  ultimately show ?thesis using ok
    unfolding e by (simp add: store_defs example_defs)
qed

text \<open>
  Claim C8 as stated fails: the verification of a reset code succeeds while the delete
  returns an error. The answer is the 200 with the session, and the record, the used code,
  is still in the table and active.
\<close>

theorem verify_reset_success_delete_fails:
  "reply (verify_otp example_hash
      ((quiet_env 1000)\<lparr>list_users := Inr [''user-1''], delete_error := True\<rparr>)
      (one_code ''a@x.com'' ''reset'' ''1234'' 5000)
      (post_request ''a@x.com'' ''reset'' ''1234'' ''pw''))
     = Response 200 (SessionBody ''session-token'')
   \<and> activeRecords
       (db (verify_otp example_hash
          ((quiet_env 1000)\<lparr>list_users := Inr [''user-1''], delete_error := True\<rparr>)
          (one_code ''a@x.com'' ''reset'' ''1234'' 5000)
          (post_request ''a@x.com'' ''reset'' ''1234'' ''pw'')))
       ''a@x.com'' ''reset'' 1000
     = [otp_row 1 ''a@x.com'' ''reset'' ''1234'' 5000]"
  by (simp add: handler_defs store_defs example_defs)

section \<open>A failed read of the table\<close>

text \<open>
  Claim C9 fails on the code. The verifying handler takes one branch for
  \<^verbatim>\<open>selectError || !data\<close>: when the read fails while an active record with the right
  code is in the table, the handler deletes the pair's records, that record among them
  (under the comment "Clean up expired OTPs"), and answers "Invalid or expired OTP". The
  issuing handler answers a failed count with a 500.
\<close>

theorem verify_read_failure_deletes:
  "activeRecords (one_code ''a@x.com'' ''reset'' ''1234'' 5000) ''a@x.com'' ''reset'' 1000
     = [otp_row 1 ''a@x.com'' ''reset'' ''1234'' 5000]
   \<and> verify_otp example_hash ((quiet_env 1000)\<lparr>select_error := True\<rparr>)
        (one_code ''a@x.com'' ''reset'' ''1234'' 5000)
        (post_request ''a@x.com'' ''reset'' ''1234'' ''pw'') =
      \<lparr>reply = InvalidOrExpired, db = \<lparr>rows = [], next_id = 2\<rparr>,
       calls = [StoreSelect, StoreDeleteAll]\<rparr>"
  by (simp add: handler_defs store_defs example_defs)

section \<open>A failed account lookup before issuing\<close>

text \<open>
  Claim C10. The issuing handler tests \<^verbatim>\<open>!listError && usersData.users.length > 0\<close>:
  a request for which \<^verbatim>\<open>listUsers\<close> returns an error is handled exactly as one for which it
  returns no user, response, table and calls alike; no response of the handler reports the
  error. So a signup whose account lookup failed gets its code stored and mailed when the
  rest of the request goes through: fewer than three rows counted, a time-to-live that is
  a number of minutes, not negative, with an expiry inside the range of \<^verbatim>\<open>Date\<close>, and
  the count, the insert and the mail without failure.
\<close>

theorem issue_ignores_listUsers_error:
  "issue_otp H (w\<lparr>list_users := Inl err\<rparr>) s req
     = issue_otp H (w\<lparr>list_users := Inr []\<rparr>) s req
   \<and> (http_method req = ''POST'' \<and> body_email req \<noteq> [] \<and> body_purpose req = ''signup''
       \<and> list_users w = Inl err \<and> \<not> cleanup_error w \<and> \<not> count_error w \<and> \<not> db_error w
       \<and> \<not> fetch_error w \<and> mail_ok w
       \<and> length (activeOtps s (body_email req) ''signup'' (now w)) < 3
       \<and> OTP_EXPIRATION_TIME w = Some m \<and> 0 \<le> m \<and> 0 \<le> date_now w
       \<and> date_now w + m * 60 * 1000 \<le> 8640000000000000
      \<longrightarrow> issue_otp H w s req =
           \<lparr>reply = EmailSent,
            db = insert_row (deleteExpired s (body_email req) ''signup'' (now w))
                   (body_email req) (H (random_code w)) ''signup''
                   (date_now w + m * 60 * 1000) (now w),
            calls = [AuthListUsers, StoreDeleteExpired, StoreCount, StoreInsert, SendMail]\<rparr>)"
proof (intro conjI impI)
  show "issue_otp H (w\<lparr>list_users := Inl err\<rparr>) s req
      = issue_otp H (w\<lparr>list_users := Inr []\<rparr>) s req"
    by (simp add: issue_otp_def issue_from_cleanup_list_users user_exists_def)
next
  assume a: "http_method req = ''POST'' \<and> body_email req \<noteq> [] \<and> body_purpose req = ''signup''
       \<and> list_users w = Inl err \<and> \<not> cleanup_error w \<and> \<not> count_error w \<and> \<not> db_error w
       \<and> \<not> fetch_error w \<and> mail_ok w
       \<and> length (activeOtps s (body_email req) ''signup'' (now w)) < 3
       \<and> OTP_EXPIRATION_TIME w = Some m \<and> 0 \<le> m \<and> 0 \<le> date_now w
       \<and> date_now w + m * 60 * 1000 \<le> 8640000000000000"
  then have "valid_date (date_now w + m * 60 * 1000)"
    by (simp add: valid_date_def)
  with a have x: "expiresAt w = Some (date_now w + m * 60 * 1000)"
    by (simp add: expiresAt_def)
  from a show "issue_otp H w s req =
           \<lparr>reply = EmailSent,
            db = insert_row (deleteExpired s (body_email req) ''signup'' (now w))
                   (body_email req) (H (random_code w)) ''signup''
                   (date_now w + m * 60 * 1000) (now w),
            calls = [AuthListUsers, StoreDeleteExpired, StoreCount, StoreInsert, SendMail]\<rparr>"
    by (simp add: issue_otp_def issue_from_cleanup_def user_exists_def Let_def x
        activeOtps_deleteExpired)
qed

text \<open>The account lookup times out, the table is empty: the code is stored and mailed.\<close>

theorem issue_ignores_listUsers_error_witness:
  "issue_otp example_hash ((quiet_env 1000)\<lparr>list_users := Inl ''timeout''\<rparr>)
      \<lparr>rows = [], next_id = 1\<rparr> (post_request ''a@x.com'' ''signup'' [] [])
   = \<lparr>reply = EmailSent,
      db = \<lparr>rows = [\<lparr>otp_id = 1, email = ''a@x.com'', code_hash = ''sha256:4821'',
                      purpose = ''signup'', expires_at = 601000, created_at = 1000\<rparr>],
            next_id = 2\<rparr>,
      calls = [AuthListUsers, StoreDeleteExpired, StoreCount, StoreInsert, SendMail]\<rparr>"
proof -
  let ?w = "(quiet_env 1000)\<lparr>list_users := Inl ''timeout''\<rparr>"
  let ?s = "\<lparr>rows = [], next_id = 1\<rparr>"
  let ?req = "post_request ''a@x.com'' ''signup'' [] []"
  have pre: "http_method ?req = ''POST'' \<and> body_email ?req \<noteq> []
      \<and> body_purpose ?req = ''signup'' \<and> list_users ?w = Inl ''timeout''
      \<and> \<not> cleanup_error ?w \<and> \<not> count_error ?w \<and> \<not> db_error ?w
      \<and> \<not> fetch_error ?w \<and> mail_ok ?w
      \<and> length (activeOtps ?s (body_email ?req) ''signup'' (now ?w)) < 3
      \<and> OTP_EXPIRATION_TIME ?w = Some 10 \<and> (0::int) \<le> 10 \<and> 0 \<le> date_now ?w
      \<and> date_now ?w + 10 * 60 * 1000 \<le> 8640000000000000"
    by (simp add: store_defs example_defs)
  from issue_ignores_listUsers_error
    [where H = example_hash and w = ?w and err = "''timeout''" and s = ?s and req = ?req
       and m = 10] pre
  have "issue_otp example_hash ?w ?s ?req =
      \<lparr>reply = EmailSent,
       db = insert_row (deleteExpired ?s (body_email ?req) ''signup'' (now ?w))
              (body_email ?req) (example_hash (random_code ?w)) ''signup''
              (date_now ?w + 10 * 60 * 1000) (now ?w),
       calls = [AuthListUsers, StoreDeleteExpired, StoreCount, StoreInsert, SendMail]\<rparr>"
    by blast
  then show ?thesis
    by (simp add: store_defs example_defs)
qed

end
